theory Spec2Isabelle
  imports Main "HOL-Library.Sublist"
begin

section \<open>Python strings\<close>

text \<open>
  A Python \<open>str\<close> is modelled as a \<open>string\<close>: a list of characters, each character
  standing for one code point below 256 (a code point of Latin-1). The string methods that
  \<open>rag_service.py\<close> calls are written out below with Python's behaviour on such strings.
\<close>

definition isspace :: "char \<Rightarrow> bool" where
  \<comment> \<open>\<open>str.isspace\<close> on one code point below 256: TAB, LF, VT, FF, CR, FS, GS, RS, US,
      SPACE, NEL and NBSP.\<close>
  "isspace c =
     (let n = (of_char c :: nat)
      in (9 \<le> n \<and> n \<le> 13) \<or> (28 \<le> n \<and> n \<le> 32) \<or> n = 133 \<or> n = 160)"

definition lower_char :: "char \<Rightarrow> char" where
  \<comment> \<open>\<open>str.lower\<close> on one code point below 256: A-Z and the Latin-1 capitals
      (0xC0-0xDE without the multiplication sign 0xD7) move up by 32.\<close>
  "lower_char c =
     (let n = (of_char c :: nat)
      in if (65 \<le> n \<and> n \<le> 90) \<or> (192 \<le> n \<and> n \<le> 222 \<and> n \<noteq> 215)
         then char_of (n + 32) else c)"

definition lower :: "string \<Rightarrow> string" where
  "lower s = map lower_char s"

definition strip :: "string \<Rightarrow> string" where
  \<comment> \<open>\<open>s.strip()\<close>: whitespace removed at both ends.\<close>
  "strip s = rev (dropWhile isspace (rev (dropWhile isspace s)))"

definition startswith :: "string \<Rightarrow> string \<Rightarrow> bool" where
  \<comment> \<open>\<open>s.startswith(p)\<close>\<close>
  "startswith s p = prefix p s"

fun join :: "string \<Rightarrow> string list \<Rightarrow> string" where
  \<comment> \<open>\<open>sep.join(xs)\<close>\<close>
  "join sep [] = []"
| "join sep [x] = x"
| "join sep (x # y # ys) = x @ sep @ join sep (y # ys)"

fun split_scan :: "string \<Rightarrow> string \<Rightarrow> string list" where
  \<comment> \<open>The scan behind \<open>s.split()\<close>: \<open>cur\<close> is the word being read, closed by the next
      whitespace character or the end of the text; runs of whitespace produce nothing.\<close>
  "split_scan cur [] = (if cur = [] then [] else [cur])"
| "split_scan cur (c # cs) =
     (if isspace c then (if cur = [] then [] else [cur]) @ split_scan [] cs
      else split_scan (cur @ [c]) cs)"

definition split :: "string \<Rightarrow> string list" where
  \<comment> \<open>\<open>s.split()\<close> with no separator.\<close>
  "split s = split_scan [] s"

fun find :: "string \<Rightarrow> string \<Rightarrow> nat option" where
  \<comment> \<open>\<open>s.find(sub)\<close>: the lowest index where \<open>sub\<close> occurs in \<open>s\<close>; Python's \<open>-1\<close> is
      \<open>None\<close>.\<close>
  "find [] sub = (if sub = [] then Some 0 else None)"
| "find (c # cs) sub =
     (if prefix sub (c # cs) then Some 0 else map_option Suc (find cs sub))"

lemma find_Some_bound: "find s sub = Some i \<Longrightarrow> i + length sub \<le> length s"
proof (induction s arbitrary: i)
  case Nil
  then show ?case by (simp split: if_splits)
next
  case (Cons c cs)
  show ?case
  proof (cases "prefix sub (c # cs)")
    case True
    with Cons.prems show ?thesis using prefix_length_le [of sub "c # cs"] by simp
  next
    case False
    with Cons.prems obtain j where "find cs sub = Some j" "i = Suc j" by auto
    with Cons.IH show ?thesis by fastforce
  qed
qed

function split_on :: "string \<Rightarrow> string \<Rightarrow> string list" where
  \<comment> \<open>\<open>s.split(sep)\<close> for a separator: cut at each occurrence found from left to right.
      Python raises ValueError for an empty separator; every separator in the source is a
      non-empty literal, and the model gives \<open>[s]\<close> there.\<close>
  "split_on s sep =
     (if sep = [] then [s]
      else case find s sep of
             None \<Rightarrow> [s]
           | Some i \<Rightarrow> take i s # split_on (drop (i + length sep) s) sep)"
  by pat_completeness auto
termination
proof (relation "measure (\<lambda>(s, sep). length s)")
  show "wf (measure (\<lambda>(s, sep). length s))" by simp
next
  fix s sep :: string and i
  assume "sep \<noteq> []" and "find s sep = Some i"
  then have "i + length sep \<le> length s" and "0 < length sep"
    by (auto dest: find_Some_bound)
  then have "length s - (i + length sep) < length s"
    by linarith
  then show "((drop (i + length sep) s, sep), (s, sep)) \<in> measure (\<lambda>(s, sep). length s)"
    by simp
qed

declare split_on.simps [simp del]

function replace :: "string \<Rightarrow> string \<Rightarrow> string \<Rightarrow> string" where
  \<comment> \<open>\<open>s.replace(old, new)\<close>: every occurrence of \<open>old\<close>, found from left to right without
      overlap, becomes \<open>new\<close>. For an empty \<open>old\<close> Python puts \<open>new\<close> before every character
      and at the end.\<close>
  "replace s old new =
     (if old = [] then new @ concat (map (\<lambda>c. c # new) s)
      else case find s old of
             None \<Rightarrow> s
           | Some i \<Rightarrow> take i s @ new @ replace (drop (i + length old) s) old new)"
  by pat_completeness auto
termination
proof (relation "measure (\<lambda>(s, old, new). length s)")
  show "wf (measure (\<lambda>(s, old, new). length s))" by simp
next
  fix s old new :: string and i
  assume "old \<noteq> []" and "find s old = Some i"
  then have "i + length old \<le> length s" and "0 < length old"
    by (auto dest: find_Some_bound)
  then have "length s - (i + length old) < length s"
    by linarith
  then show "((drop (i + length old) s, old, new), (s, old, new))
               \<in> measure (\<lambda>(s, old, new). length s)"
    by simp
qed

declare replace.simps [simp del]

section \<open>The chunker\<close>

definition chunk_size :: nat where
  \<comment> \<open>\<open>self.chunk_size\<close>, set in \<open>__init__\<close> and never assigned again (words).\<close>
  "chunk_size = 2000"

definition chunk_overlap :: nat where
  \<comment> \<open>\<open>self.chunk_overlap\<close>, set in \<open>__init__\<close> and never assigned again (words).\<close>
  "chunk_overlap = 200"

function chunk_loop :: "nat \<Rightarrow> nat \<Rightarrow> 'a list \<Rightarrow> nat \<Rightarrow> 'a list list" where
  \<comment> \<open>The loop of \<open>_chunk_text\<close> from index \<open>i\<close> on:
      \<open>for i in range(0, len(words), step): chunk = words[i:i + sz]; if chunk: ...\<close>.
      \<open>range\<close> raises ValueError for a zero step; the step of the source is 1800, and the
      model gives no chunk for a zero step.\<close>
  "chunk_loop step sz words i =
     (if step = 0 \<or> length words \<le> i then []
      else (let chunk = take sz (drop i words)
            in (if chunk \<noteq> [] then [chunk] else []) @ chunk_loop step sz words (i + step)))"
  by pat_completeness auto
termination
  by (relation "measure (\<lambda>(step, sz, words, i). length words - i)") auto

declare chunk_loop.simps [simp del]

definition chunk_words :: "string list \<Rightarrow> string list list" where
  \<comment> \<open>The word windows of \<open>_chunk_text\<close>, before they are joined.\<close>
  "chunk_words words = chunk_loop (chunk_size - chunk_overlap) chunk_size words 0"

definition chunk_text :: "string \<Rightarrow> string list" where
  \<comment> \<open>\<open>RAGStudyAssistant._chunk_text\<close>\<close>
  "chunk_text text = map (join '' '') (chunk_words (split text))"

definition remove_overlap :: "string list \<Rightarrow> string list" where
  \<comment> \<open>The reconstruction the specification describes: the words of the chunks in order,
      without the first \<open>chunk_overlap\<close> words of every chunk after the first.\<close>
  "remove_overlap chunks =
     (case map split chunks of
        [] \<Rightarrow> []
      | c # cs \<Rightarrow> c @ concat (map (drop chunk_overlap) cs))"

section \<open>The assistant's state and the capabilities it calls\<close>

datatype py_error =
    AttributeError string
  | IndexError string
  | ValueError string
  | AssertionError string
  | RuntimeError string

fun message :: "py_error \<Rightarrow> string" where
  \<comment> \<open>\<open>str(e)\<close>, as the f-strings of the source print an exception.\<close>
  "message (AttributeError m) = m"
| "message (IndexError m) = m"
| "message (ValueError m) = m"
| "message (AssertionError m) = m"
| "message (RuntimeError m) = m"

datatype 'a ndarray = NDArray (ncols: nat) (rows: "'a list list")
  \<comment> \<open>A two-dimensional array of shape \<open>(length rows, ncols)\<close>.\<close>

datatype 'a index_flat = IndexFlatL2 (d: nat) (xb: "'a list list")
  \<comment> \<open>The flat vector index: its dimension and its stored rows, in insertion order.\<close>

definition ntotal :: "'a index_flat \<Rightarrow> nat" where
  "ntotal ix = length (xb ix)"

datatype length_arg = max_length nat | max_new_tokens nat
  \<comment> \<open>The keyword under which the length budget is passed to the pipeline.\<close>

record pipeline =
  task :: string
  run :: "string \<Rightarrow> length_arg \<Rightarrow> py_error + (string \<rightharpoonup> string) list"

text \<open>
  \<open>run p prompt arg\<close> is the outcome of one call \<open>self.qa_pipeline(prompt, ...)\<close>: an exception
  or the response, a list of dictionaries. The embedder's \<open>encode\<close> and the index's \<open>search\<close>
  are outcomes of calls in the same way; \<open>search ix q k\<close> gives the label row \<open>I[0]\<close>.
\<close>

type_synonym 'a embedder = "string list \<Rightarrow> py_error + 'a ndarray"

type_synonym 'a searcher = "'a index_flat \<Rightarrow> 'a ndarray \<Rightarrow> nat \<Rightarrow> py_error + int list"

record 'a assistant =
  embedder :: "'a embedder option"
  qa_pipeline :: "pipeline option"
  vector_index :: "'a index_flat option"
  documents :: "string list"

definition none_attribute :: "string \<Rightarrow> py_error" where
  \<comment> \<open>The exception of an attribute access on \<open>None\<close>.\<close>
  "none_attribute a =
     AttributeError (CHR 0x27 # ''NoneType'' @ CHR 0x27 # '' object has no attribute ''
                     @ CHR 0x27 # a @ [CHR 0x27])"

definition encode :: "'a embedder option \<Rightarrow> string list \<Rightarrow> py_error + 'a ndarray" where
  \<comment> \<open>\<open>self.embedder.encode(texts)\<close>; the embedder is \<open>None\<close> when its initialisation
      failed, and the attribute access raises.\<close>
  "encode emb texts =
     (case emb of
        None \<Rightarrow> Inl (none_attribute ''encode'')
      | Some f \<Rightarrow> f texts)"

definition py_index :: "'b list \<Rightarrow> int \<Rightarrow> py_error + 'b" where
  \<comment> \<open>\<open>xs[i]\<close>: an index from \<open>-len(xs)\<close> up to \<open>-1\<close> counts from the end; outside
      \<open>-len(xs) .. len(xs) - 1\<close> the read raises.\<close>
  "py_index xs i =
     (if 0 \<le> i \<and> i < int (length xs) then Inr (xs ! nat i)
      else if i < 0 \<and> - int (length xs) \<le> i then Inr (xs ! nat (int (length xs) + i))
      else Inl (IndexError ''list index out of range''))"

subsection \<open>Adding documents\<close>

definition batch_size :: nat where
  "batch_size = 100"

function embed_batches :: "'a embedder option \<Rightarrow> string list \<Rightarrow> nat \<Rightarrow> 'a ndarray list" where
  \<comment> \<open>The batch loop of \<open>add_documents\<close> from index \<open>i\<close> on; a batch whose embedding raises
      is reported and contributes nothing to \<open>embeddings_list\<close>.\<close>
  "embed_batches emb all_chunks i =
     (if length all_chunks \<le> i then []
      else (let batch_chunks = take batch_size (drop i all_chunks)
            in (case encode emb batch_chunks of
                  Inr batch_embeddings \<Rightarrow> [batch_embeddings]
                | Inl e \<Rightarrow> [])
               @ embed_batches emb all_chunks (i + batch_size)))"
  by pat_completeness auto
termination
  by (relation "measure (\<lambda>(emb, all_chunks, i). length all_chunks - i)")
     (auto simp: batch_size_def)

declare embed_batches.simps [simp del]

fun vstack :: "'a ndarray list \<Rightarrow> py_error + 'a ndarray" where
  \<comment> \<open>\<open>np.vstack\<close> of two-dimensional arrays: the rows in order, when the widths agree.\<close>
  "vstack [] = Inl (ValueError ''need at least one array to concatenate'')"
| "vstack (m # ms) =
     (if list_all (\<lambda>m'. ncols m' = ncols m) ms
      then Inr (NDArray (ncols m) (concat (map rows (m # ms))))
      else Inl (ValueError ''all the input array dimensions except for the concatenation axis must match exactly''))"

definition index_add :: "'a index_flat \<Rightarrow> 'a ndarray \<Rightarrow> py_error + 'a index_flat" where
  \<comment> \<open>\<open>index.add(x)\<close>: the rows of \<open>x\<close> are appended; a width other than the index's
      dimension fails the assertion of the index.\<close>
  "index_add ix x =
     (if ncols x = d ix then Inr (IndexFlatL2 (d ix) (xb ix @ rows x))
      else Inl (AssertionError []))"

definition add_documents ::
  "'a assistant \<Rightarrow> string list \<Rightarrow> py_error option \<times> 'a assistant" where
  \<comment> \<open>\<open>RAGStudyAssistant.add_documents\<close>: the exception that leaves the call, if any, and
      the state the call leaves behind.\<close>
  "add_documents st docs =
     (if docs = [] then (None, st)
      else
        (let all_chunks = concat (map chunk_text docs);
             st1 = st\<lparr>documents := documents st @ all_chunks\<rparr>;
             embeddings_list = embed_batches (embedder st) all_chunks 0
         in if embeddings_list = [] then (None, st1)
            else
              (case vstack embeddings_list of
                 Inl e \<Rightarrow> (Some e, st1)
               | Inr embeddings \<Rightarrow>
                   (let ix = (case vector_index st1 of
                                None \<Rightarrow> IndexFlatL2 (ncols embeddings) []
                              | Some ix \<Rightarrow> ix);
                        st2 = st1\<lparr>vector_index := Some ix\<rparr>
                    in (case index_add ix embeddings of
                          Inl e \<Rightarrow> (Some e, st2)
                        | Inr ix' \<Rightarrow> (None, st2\<lparr>vector_index := Some ix'\<rparr>))))))"

definition init_assistant :: "'a embedder option \<Rightarrow> pipeline option \<Rightarrow> 'a assistant" where
  \<comment> \<open>The state \<open>__init__\<close> leaves: whichever embedder and pipeline could be loaded, no
      index, no documents.\<close>
  "init_assistant emb qa =
     \<lparr>embedder = emb, qa_pipeline = qa, vector_index = None, documents = []\<rparr>"

definition row_count :: "'a assistant \<Rightarrow> nat" where
  \<comment> \<open>The row count of the vector index; an index not yet created holds no row.\<close>
  "row_count st = (case vector_index st of None \<Rightarrow> 0 | Some ix \<Rightarrow> ntotal ix)"


subsection \<open>Answering a question\<close>

definition top_k :: nat where
  \<comment> \<open>The literal number of neighbours \<open>query\<close> asks the index for.\<close>
  "top_k = 30"

fun read_documents :: "string list \<Rightarrow> int list \<Rightarrow> py_error + string list" where
  \<comment> \<open>\<open>[self.documents[i] for i in I[0]]\<close>: the first failing read raises.\<close>
  "read_documents docs [] = Inr []"
| "read_documents docs (i # labels) =
     (case py_index docs i of
        Inl e \<Rightarrow> Inl e
      | Inr doc \<Rightarrow>
          (case read_documents docs labels of
             Inl e \<Rightarrow> Inl e
           | Inr rest \<Rightarrow> Inr (doc # rest)))"

datatype retrieved = Message string | Chunks "string list"
  \<comment> \<open>What the first half of \<open>query\<close> ends with: a message returned to the caller at
      once, or the chunks the context is joined from.\<close>

definition truthy :: "'b list option \<Rightarrow> bool" where
  \<comment> \<open>\<open>if context_texts:\<close> holds for a list that is neither \<open>None\<close> nor empty.\<close>
  "truthy xs = (case xs of None \<Rightarrow> False | Some ys \<Rightarrow> ys \<noteq> [])"

definition retrieve ::
  "'a searcher \<Rightarrow> 'a assistant \<Rightarrow> string \<Rightarrow> string list option \<Rightarrow> py_error + retrieved" where
  \<comment> \<open>Lines 98-119 of \<open>query\<close>, up to the join of the context.\<close>
  "retrieve search st question_text context_texts =
     (if truthy context_texts
      then Inr (Chunks (concat (map chunk_text (case context_texts of Some ts \<Rightarrow> ts | None \<Rightarrow> []))))
      else
        (case vector_index st of
           None \<Rightarrow> Inr (Message ''Please upload some study materials first!'')
         | Some ix \<Rightarrow>
             if documents st = [] then Inr (Message ''Please upload some study materials first!'')
             else if qa_pipeline st = None then Inr (Message ''QA model is not loaded properly.'')
             else
               (case encode (embedder st) [question_text] of
                  Inl e \<Rightarrow> Inl e
                | Inr question_embedding \<Rightarrow>
                    (case search ix question_embedding top_k of
                       Inl e \<Rightarrow> Inl e
                     | Inr labels \<Rightarrow>
                         if labels = [] then Inr (Message ''No relevant documents found.'')
                         else
                           (case read_documents (documents st) labels of
                              Inl e \<Rightarrow> Inl e
                            | Inr chunks \<Rightarrow> Inr (Chunks chunks))))))"

definition format_instructions :: "(string \<times> string) list" where
  "format_instructions =
     [(''full'', ''You are a helpful AI study assistant. Answer the question in a friendly, conversational tone, providing detailed information from the context as if explaining to a curious student.''),
      (''short_summary'', ''You are a helpful AI study assistant. Provide a concise summary of the key points from the context in 2-3 sentences, in a friendly and engaging way.''),
      (''bullet_points'', ''You are a helpful AI study assistant. Extract and present the main information from the context in clear bullet points, making it easy and fun to read.''),
      (''long_answer'', ''You are a helpful AI study assistant. Provide a long and detailed answer, elaborating on all relevant aspects from the context in a conversational manner, like chatting with a student.''),
      (''one_word'', ''You are a helpful AI study assistant. Provide a single word answer based on the context, keeping it straightforward.''),
      (''short_answer'', ''You are a helpful AI study assistant. Provide a brief answer in one or two sentences based on the context, in a friendly tone.'')]"

definition max_lengths :: "(string \<times> nat) list" where
  "max_lengths =
     [(''full'', 2048), (''short_summary'', 1024), (''bullet_points'', 1024),
      (''long_answer'', 2048), (''one_word'', 20), (''short_answer'', 1024)]"

definition dict_get :: "('k \<rightharpoonup> 'v) \<Rightarrow> 'k \<Rightarrow> 'v \<Rightarrow> 'v" where
  \<comment> \<open>\<open>d.get(key, default)\<close>\<close>
  "dict_get m k dflt = (case m k of None \<Rightarrow> dflt | Some v \<Rightarrow> v)"

definition instruction :: "string \<Rightarrow> string" where
  "instruction answer_format =
     dict_get (map_of format_instructions) answer_format
       ''Answer in full sentences and in detail.''"

definition max_len :: "string \<Rightarrow> nat" where
  "max_len answer_format = dict_get (map_of max_lengths) answer_format 2048"

definition prompt_of :: "string \<Rightarrow> string \<Rightarrow> string \<Rightarrow> string" where
  \<comment> \<open>The f-string of line 132.\<close>
  "prompt_of answer_format context question_text =
     instruction answer_format
     @ '' Based on the provided context, answer the following educational question accurately. Context: ''
     @ context @ '' Question: '' @ question_text"

definition run_pipeline :: "pipeline option \<Rightarrow> string \<Rightarrow> nat \<Rightarrow> py_error + string" where
  \<comment> \<open>The body of the \<open>try\<close> that calls the pipeline (lines 145-162 and 246-262): the
      generated text, or the exception raised on the way. A pipeline that is \<open>None\<close> raises at
      \<open>self.qa_pipeline.task\<close>, an empty response at \<open>response[0]\<close>.\<close>
  "run_pipeline qa prompt n =
     (case qa of
        None \<Rightarrow> Inl (none_attribute ''task'')
      | Some p \<Rightarrow>
          if task p = ''text2text-generation''
          then (case run p prompt (max_length n) of
                  Inl e \<Rightarrow> Inl e
                | Inr [] \<Rightarrow> Inl (IndexError ''list index out of range'')
                | Inr (r # _) \<Rightarrow> Inr (dict_get r ''generated_text'' []))
          else (case run p prompt (max_new_tokens n) of
                  Inl e \<Rightarrow> Inl e
                | Inr [] \<Rightarrow> Inl (IndexError ''list index out of range'')
                | Inr (r # _) \<Rightarrow> Inr (replace (dict_get r ''generated_text'' []) prompt [])))"

definition generate :: "pipeline option \<Rightarrow> string \<Rightarrow> nat \<Rightarrow> string" where
  \<comment> \<open>The \<open>try\<close>/\<open>except\<close> of lines 144-164: every exception becomes a returned text.\<close>
  "generate qa prompt n =
     (case run_pipeline qa prompt n of
        Inl e \<Rightarrow> ''Error during generation: '' @ message e
      | Inr generated_text \<Rightarrow> generated_text)"

definition query ::
  "'a searcher \<Rightarrow> 'a assistant \<Rightarrow> string \<Rightarrow> string list option \<Rightarrow> string \<Rightarrow> py_error + string" where
  \<comment> \<open>\<open>RAGStudyAssistant.query\<close>: \<open>Inl\<close> is an exception that leaves the call.\<close>
  "query search st question_text context_texts answer_format =
     (case retrieve search st question_text context_texts of
        Inl e \<Rightarrow> Inl e
      | Inr (Message m) \<Rightarrow> Inr m
      | Inr (Chunks chunks) \<Rightarrow>
          Inr (generate (qa_pipeline st)
                 (prompt_of answer_format (join ''\<newline>'' chunks) question_text)
                 (max_len answer_format)))"

subsection \<open>Flashcards\<close>

record flashcard =
  question :: string
  answer :: string
  review_count :: nat
  last_reviewed :: "string option"

definition new_card :: "string \<Rightarrow> string \<Rightarrow> flashcard list" where
  \<comment> \<open>\<open>if question and answer: flashcards.append({...})\<close>\<close>
  "new_card q a =
     (if q \<noteq> [] \<and> a \<noteq> []
      then [\<lparr>question = q, answer = a, review_count = 0, last_reviewed = None\<rparr>]
      else [])"

definition marker_part :: "string \<Rightarrow> flashcard list" where
  \<comment> \<open>One pass of the loop over \<open>parts[1:]\<close> (lines 279-294).\<close>
  "marker_part part =
     (let lines = split_on part ''\<newline>''
      in if 3 \<le> length lines
         then (let question_line = filter (\<lambda>line. startswith (lower line) ''question:'') lines;
                   answer_line = filter (\<lambda>line. startswith (lower line) ''answer:'') lines
               in case (question_line, answer_line) of
                    (ql # _, al # _) \<Rightarrow>
                      new_card (strip (drop (length ''question:'') ql))
                               (strip (drop (length ''answer:'') al))
                  | _ \<Rightarrow> [])
         else [])"

definition fallback_part :: "string \<Rightarrow> flashcard list" where
  \<comment> \<open>One pass of the loop over \<open>question_parts[1:]\<close> (lines 302-319).\<close>
  "fallback_part part =
     (case find (lower part) ''answer:'' of
        None \<Rightarrow> []
      | Some answer_start \<Rightarrow>
          (let q = strip (take answer_start part);
               remaining = strip (drop (answer_start + length ''answer:'') part);
               a = (case find (lower remaining) ''question:'' of
                      Some next_question \<Rightarrow> strip (take next_question remaining)
                    | None \<Rightarrow> strip remaining)
           in new_card q a))"

definition parse_flashcards :: "string \<Rightarrow> flashcard list" where
  \<comment> \<open>Lines 266-322: the parser applied to the generated text.\<close>
  "parse_flashcards generated_text =
     (let normalized_text =
            replace (replace generated_text [CHR 0x0D, CHR 0x0A] ''\<newline>'')
              [CHR 0x0D] ''\<newline>'';
          parts = split_on normalized_text ''Flashcard '';
          flashcards =
            (if 1 < length parts then concat (map marker_part (tl parts))
             else concat (map fallback_part (tl (split_on normalized_text ''Question:''))))
      in take 5 flashcards)"


definition few_shot_block :: string where
  \<comment> \<open>The five examples of the prompt of line 243, from \<open>Flashcard 1:\<close> to the last
      example's answer.\<close>
  "few_shot_block =
     ''Flashcard 1:\<newline>Question: What is the capital of France?\<newline>Answer: Paris\<newline>\<newline>''
     @ ''Flashcard 2:\<newline>Question: What is 2+2?\<newline>Answer: 4\<newline>\<newline>''
     @ ''Flashcard 3:\<newline>Question: What is the color of the sky?\<newline>Answer: Blue\<newline>\<newline>''
     @ ''Flashcard 4:\<newline>Question: What is the largest planet?\<newline>Answer: Jupiter\<newline>\<newline>''
     @ ''Flashcard 5:\<newline>Question: What is water made of?\<newline>Answer: Hydrogen and oxygen''"

definition flashcard_prompt :: "string \<Rightarrow> string" where
  \<comment> \<open>The f-string of line 243.\<close>
  "flashcard_prompt context =
     ''Generate 5 flashcards from the following study material. Each flashcard must have a question and answer. Format your response exactly like this example:\<newline>\<newline>''
     @ few_shot_block
     @ ''\<newline>\<newline>Context: '' @ context @ ''\<newline>\<newline>Flashcards:''"

definition max_context_chars :: nat where
  "max_context_chars = 2048 * 4"

definition generate_flashcards :: "'a assistant \<Rightarrow> string option \<Rightarrow> flashcard list" where
  \<comment> \<open>\<open>RAGStudyAssistant.generate_flashcards\<close>: the \<open>except\<close> of line 323 turns every
      exception of the pipeline call into the empty list.\<close>
  "generate_flashcards st content =
     (if qa_pipeline st = None then []
      else
        (case (case content of
                 Some c \<Rightarrow> Some (join ''\<newline>'' (take 30 (chunk_text c)))
               | None \<Rightarrow>
                   if vector_index st = None \<or> documents st = [] then None
                   else Some (join ''\<newline>'' (take 30 (documents st)))) of
           None \<Rightarrow> []
         | Some context0 \<Rightarrow>
             (let context = (if max_context_chars < length context0
                             then take max_context_chars context0 @ ''...''
                             else context0)
              in case run_pipeline (qa_pipeline st) (flashcard_prompt context) 2048 of
                   Inl e \<Rightarrow> []
                 | Inr generated_text \<Rightarrow> parse_flashcards generated_text)))"

definition word_ok :: "string \<Rightarrow> bool" where
  \<comment> \<open>A word as \<open>split\<close> produces it: not empty and free of whitespace.\<close>
  "word_ok w = (w \<noteq> [] \<and> (\<forall>c \<in> set w. \<not> isspace c))"

section \<open>Concrete capabilities for the examples\<close>

text \<open>
  Small stand-ins for the external capabilities, used where a statement is evaluated on a
  concrete input.
\<close>

definition unit_embedder :: "int embedder" where
  \<comment> \<open>An embedder that never fails: one vector of width 2 per text.\<close>
  "unit_embedder texts = Inr (NDArray 2 (map (\<lambda>t. [int (length t), 0]) texts))"

definition echo_pipeline :: pipeline where
  \<comment> \<open>A sequence-to-sequence pipeline that answers every prompt with \<open>ok\<close>.\<close>
  "echo_pipeline =
     \<lparr>task = ''text2text-generation'',
      run = (\<lambda>prompt arg. Inr [[''generated_text'' \<mapsto> ''ok'']])\<rparr>"

definition failing_pipeline :: pipeline where
  \<comment> \<open>A causal pipeline whose every call raises.\<close>
  "failing_pipeline =
     \<lparr>task = ''text-generation'', run = (\<lambda>prompt arg. Inl (RuntimeError ''out of memory''))\<rparr>"

definition repeating_pipeline :: "string \<Rightarrow> pipeline" where
  \<comment> \<open>A causal pipeline that echoes the prompt and continues it with \<open>rest\<close>.\<close>
  "repeating_pipeline rest =
     \<lparr>task = ''text-generation'',
      run = (\<lambda>prompt arg. Inr [[''generated_text'' \<mapsto> prompt @ rest]])\<rparr>"

definition three_chunks :: "int assistant" where
  \<comment> \<open>An assistant with three stored chunks and their three rows in the index.\<close>
  "three_chunks =
     \<lparr>embedder = Some unit_embedder, qa_pipeline = Some echo_pipeline,
      vector_index = Some (IndexFlatL2 2 [[1, 0], [1, 0], [1, 0]]),
      documents = [''a'', ''b'', ''c'']\<rparr>"

definition padded_search :: "'a searcher" where
  \<comment> \<open>A search that always answers with \<open>k\<close> labels, as the flat index of the vector
      library does: the rows it has, then \<open>-1\<close> for every neighbour it cannot supply.\<close>
  "padded_search ix q k =
     Inr (map int [0 ..< min k (ntotal ix)] @ replicate (k - ntotal ix) (- 1))"

definition six_cards :: string where
  \<comment> \<open>A generated text of six well-formed flashcard segments.\<close>
  "six_cards =
     concat (replicate 6 ''Flashcard 1:\<newline>Question: What is 2+2?\<newline>Answer: 4\<newline>\<newline>'')"

section \<open>Properties of the chunker\<close>

lemma chunk_loop_length:
  "0 < step \<Longrightarrow> 0 < sz \<Longrightarrow>
   length (chunk_loop step sz ws i) = (length ws - i + step - 1) div step"
proof (induction step sz ws i rule: chunk_loop.induct)
  case (1 step sz ws i)
  show ?case
  proof (cases "length ws \<le> i")
    case True
    with "1.prems" show ?thesis by (subst chunk_loop.simps) simp
  next
    case False
    then have ne: "take sz (drop i ws) \<noteq> []" using "1.prems" by simp
    have ih: "length (chunk_loop step sz ws (i + step)) = (length ws - (i + step) + step - 1) div step"
      using "1.IH" [OF _ refl] False "1.prems" by simp
    have ar: "(length ws - i + step - 1) div step = Suc ((length ws - (i + step) + step - 1) div step)"
    proof (cases "length ws - i \<le> step")
      case True
      with False "1.prems" have "(length ws - i + step - 1) div step = 1"
        by (intro div_nat_eqI) auto
      moreover from True "1.prems" have "(length ws - (i + step) + step - 1) div step = 0"
        by simp
      ultimately show ?thesis by simp
    next
      case False
      define m where "m = length ws - i - 1"
      have a: "length ws - i + step - 1 = m + step"
        using False by (simp add: m_def)
      have b: "length ws - (i + step) + step - 1 = m"
        using False by (simp add: m_def)
      show ?thesis
        unfolding a b using "1.prems" by (simp add: div_add_self2)
    qed
    show ?thesis
      using False "1.prems" ne ih ar
      by (subst chunk_loop.simps) (simp add: Let_def)
  qed
qed

lemma chunk_loop_nth:
  "0 < step \<Longrightarrow> 0 < sz \<Longrightarrow> j < length (chunk_loop step sz ws i) \<Longrightarrow>
   chunk_loop step sz ws i ! j = take sz (drop (i + j * step) ws)"
proof (induction step sz ws i arbitrary: j rule: chunk_loop.induct)
  case (1 step sz ws i)
  show ?case
  proof (cases "length ws \<le> i")
    case True
    with "1.prems" show ?thesis by (simp add: chunk_loop.simps [of step sz ws i])
  next
    case False
    then have ne: "take sz (drop i ws) \<noteq> []" using "1.prems" by simp
    have unfold: "chunk_loop step sz ws i = take sz (drop i ws) # chunk_loop step sz ws (i + step)"
      using False "1.prems" ne by (subst chunk_loop.simps) (simp add: Let_def)
    show ?thesis
    proof (cases j)
      case 0
      then show ?thesis by (simp add: unfold)
    next
      case (Suc k)
      with "1.prems" unfold have "k < length (chunk_loop step sz ws (i + step))" by simp
      then have "chunk_loop step sz ws (i + step) ! k = take sz (drop (i + step + k * step) ws)"
        using "1.IH" [OF _ refl, of k] False "1.prems" by simp
      then show ?thesis by (simp add: unfold Suc add.assoc)
    qed
  qed
qed

lemma chunk_loop_concat:
  "0 < step \<Longrightarrow> 0 < sz \<Longrightarrow> step \<le> sz \<Longrightarrow> i < length ws \<Longrightarrow>
   concat (map (drop (sz - step)) (chunk_loop step sz ws i)) = drop (i + (sz - step)) ws"
proof (induction step sz ws i rule: chunk_loop.induct)
  case (1 step sz ws i)
  have ne: "take sz (drop i ws) \<noteq> []" using "1.prems" by simp
  have unfold: "chunk_loop step sz ws i = take sz (drop i ws) # chunk_loop step sz ws (i + step)"
    using "1.prems" ne by (subst chunk_loop.simps) (simp add: Let_def)
  have rest: "concat (map (drop (sz - step)) (chunk_loop step sz ws (i + step)))
                = drop (i + step + (sz - step)) ws"
  proof (cases "i + step < length ws")
    case True
    then show ?thesis using "1.IH" [OF _ refl] "1.prems" by simp
  next
    case False
    then show ?thesis by (simp add: chunk_loop.simps [of step sz ws "i + step"])
  qed
  have "drop (sz - step) (take sz (drop i ws)) = take step (drop (i + (sz - step)) ws)"
    using "1.prems" by (simp add: drop_take add.commute)
  moreover have "drop (i + step + (sz - step)) ws = drop step (drop (i + (sz - step)) ws)"
    by (simp add: add.commute add.left_commute)
  ultimately have "concat (map (drop (sz - step)) (chunk_loop step sz ws i))
      = take step (drop (i + (sz - step)) ws) @ drop step (drop (i + (sz - step)) ws)"
    by (simp only: unfold rest list.map concat.simps)
  then show ?case
    by (simp only: append_take_drop_id)
qed


lemma split_scan_words:
  "(\<forall>c \<in> set cur. \<not> isspace c) \<Longrightarrow> \<forall>w \<in> set (split_scan cur s). word_ok w"
proof (induction s arbitrary: cur)
  case Nil
  then show ?case by (simp add: word_ok_def)
next
  case (Cons a s)
  show ?case
  proof (cases "isspace a")
    case True
    have "\<forall>w \<in> set (split_scan [] s). word_ok w"
      using Cons.IH [of "[]"] by simp
    with True Cons.prems show ?thesis by (simp add: word_ok_def)
  next
    case False
    with Cons.prems have "\<forall>c \<in> set (cur @ [a]). \<not> isspace c" by simp
    then have "\<forall>w \<in> set (split_scan (cur @ [a]) s). word_ok w"
      by (rule Cons.IH)
    with False show ?thesis by simp
  qed
qed

lemma split_words: "\<forall>w \<in> set (split s). word_ok w"
  using split_scan_words [of "[]" s] by (simp add: split_def)

lemma split_scan_word:
  "\<forall>c \<in> set w. \<not> isspace c \<Longrightarrow> split_scan cur (w @ rest) = split_scan (cur @ w) rest"
  by (induction w arbitrary: cur) auto

lemma isspace_space: "isspace CHR '' ''"
  by (simp add: isspace_def)

lemma split_join:
  "\<forall>w \<in> set ws. word_ok w \<Longrightarrow> split (join '' '' ws) = ws"
proof (induction ws rule: induct_list012)
  case 1
  show ?case by (simp add: split_def)
next
  case (2 w)
  then have "word_ok w" by simp
  then show ?case
    using split_scan_word [of w "[]" "[]"] by (simp add: split_def word_ok_def)
next
  case (3 w y ys)
  then have w: "word_ok w" and ih: "split (join '' '' (y # ys)) = y # ys" by simp_all
  have "split (join '' '' (w # y # ys)) = split_scan w (CHR '' '' # join '' '' (y # ys))"
    using w split_scan_word [of w "[]" "CHR '' '' # join '' '' (y # ys)"]
    by (simp add: split_def word_ok_def)
  also have "\<dots> = w # split (join '' '' (y # ys))"
    using w by (simp add: isspace_space split_def word_ok_def)
  finally show ?case by (simp add: ih)
qed

lemma split_whitespace: "\<forall>c \<in> set s. isspace c \<Longrightarrow> split s = []"
proof -
  have "\<forall>c \<in> set s. isspace c \<Longrightarrow> split_scan [] s = []"
    by (induction s) auto
  then show "\<forall>c \<in> set s. isspace c \<Longrightarrow> split s = []" by (simp add: split_def)
qed

lemma chunk_loop_subset:
  "c \<in> set (chunk_loop step sz ws i) \<Longrightarrow> c \<noteq> [] \<and> set c \<subseteq> set ws"
proof (induction step sz ws i rule: chunk_loop.induct)
  case (1 step sz ws i)
  show ?case
  proof (cases "step = 0 \<or> length ws \<le> i")
    case True
    with "1.prems" show ?thesis by (simp add: chunk_loop.simps [of step sz ws i])
  next
    case False
    from "1.prems" False
    consider "c = take sz (drop i ws)" "c \<noteq> []" | "c \<in> set (chunk_loop step sz ws (i + step))"
      by (subst (asm) chunk_loop.simps) (auto simp: Let_def split: if_splits)
    then show ?thesis
    proof cases
      case 1
      then show ?thesis
        using set_take_subset [of sz "drop i ws"] set_drop_subset [of i ws] by auto
    next
      case 2
      then show ?thesis using "1.IH" [OF False refl] by simp
    qed
  qed
qed

lemma split_chunk_text:
  "map split (chunk_text text) = chunk_words (split text)"
proof -
  have "\<forall>ws \<in> set (chunk_words (split text)). split (join '' '' ws) = ws"
  proof
    fix ws assume "ws \<in> set (chunk_words (split text))"
    then have "set ws \<subseteq> set (split text)"
      unfolding chunk_words_def by (auto dest: chunk_loop_subset)
    with split_words [of "text"] have "\<forall>w \<in> set ws. word_ok w" by auto
    then show "split (join '' '' ws) = ws" by (rule split_join)
  qed
  then show ?thesis
    by (simp add: chunk_text_def map_idI)
qed

text \<open>
  Claim C9. The words of the chunks, taken in order without the first 200 words of every
  chunk after the first, are exactly the words of the text.
\<close>

theorem remove_overlap_chunk_text: "remove_overlap (chunk_text text) = split text"
proof (cases "split text = []")
  case True
  then show ?thesis
    by (simp add: remove_overlap_def split_chunk_text chunk_words_def
        chunk_loop.simps [of _ _ "[]"])
next
  case False
  define ws where "ws = split text"
  have ne: "ws \<noteq> []" using False by (simp add: ws_def)
  have unfold: "chunk_words ws = take 2000 ws # chunk_loop 1800 2000 ws 1800"
    using ne unfolding chunk_words_def chunk_size_def chunk_overlap_def
    by (subst chunk_loop.simps) (simp add: Let_def)
  have rest: "concat (map (drop 200) (chunk_loop 1800 2000 ws 1800)) = drop 2000 ws"
  proof (cases "1800 < length ws")
    case True
    then show ?thesis
      using chunk_loop_concat [of 1800 2000 1800 ws] by simp
  next
    case False
    then show ?thesis by (simp add: chunk_loop.simps [of _ _ ws 1800])
  qed
  show ?thesis
    unfolding remove_overlap_def split_chunk_text ws_def [symmetric]
    by (simp add: unfold rest chunk_overlap_def)
qed

text \<open>
  Claim C1, as the code has it. A text of \<open>W\<close> words gives \<open>ceil(W / 1800)\<close> chunks; chunk
  \<open>j\<close> holds the words from position \<open>1800 * j\<close> on, at most 2000 of them and at least one;
  a text of whitespace only gives no chunk.
\<close>

theorem remove_overlap_chunk_text_witness:
  "remove_overlap (chunk_text ''to be  or not'') = [''to'', ''be'', ''or'', ''not'']"
  using remove_overlap_chunk_text [of "''to be  or not''"]
  by (simp add: split_def isspace_def)

theorem chunk_text_count:
  "length (chunk_text text) = (length (split text) + 1799) div 1800
   \<and> (\<forall>j < length (chunk_text text).
        split (chunk_text text ! j) = take 2000 (drop (1800 * j) (split text))
        \<and> 1 \<le> length (split (chunk_text text ! j))
        \<and> length (split (chunk_text text ! j)) \<le> 2000)
   \<and> ((\<forall>c \<in> set text. isspace c) \<longrightarrow> chunk_text text = [])"
proof (intro conjI allI impI)
  have len: "length (chunk_text text) = length (chunk_words (split text))"
    by (simp add: chunk_text_def)
  show count: "length (chunk_text text) = (length (split text) + 1799) div 1800"
    using chunk_loop_length [of 1800 2000 "split text" 0]
    by (simp add: len chunk_words_def chunk_size_def chunk_overlap_def)
  fix j assume j: "j < length (chunk_text text)"
  have "split (chunk_text text ! j) = map split (chunk_text text) ! j"
    using j by simp
  also have "\<dots> = chunk_words (split text) ! j"
    by (simp only: split_chunk_text)
  also have "\<dots> = take 2000 (drop (1800 * j) (split text))"
    using j chunk_loop_nth [of 1800 2000 j "split text" 0]
    by (simp add: len chunk_words_def chunk_size_def chunk_overlap_def mult.commute)
  finally show eq: "split (chunk_text text ! j) = take 2000 (drop (1800 * j) (split text))" .
  have "chunk_words (split text) ! j \<in> set (chunk_words (split text))"
    using j len by simp
  then have "chunk_words (split text) ! j \<noteq> []"
    unfolding chunk_words_def by (auto dest: chunk_loop_subset)
  moreover have "split (chunk_text text ! j) = chunk_words (split text) ! j"
    using j by (simp add: split_chunk_text [symmetric])
  ultimately show "1 \<le> length (split (chunk_text text ! j))"
    by (simp add: Suc_le_eq)
  show "length (split (chunk_text text ! j)) \<le> 2000"
    by (simp add: eq)
next
  assume "\<forall>c \<in> set text. isspace c"
  then have "split text = []" by (rule split_whitespace)
  then show "chunk_text text = []"
    by (simp add: chunk_text_def chunk_words_def chunk_loop.simps [of _ _ "[]"])
qed


theorem chunk_text_count_witness:
  "length (chunk_text ''to be  or not'') = 1
   \<and> split (chunk_text ''to be  or not'' ! 0) = [''to'', ''be'', ''or'', ''not'']
   \<and> chunk_text [CHR '' '', CHR 0x09, CHR 0x0A] = []"
  using chunk_text_count [of "''to be  or not''"]
    chunk_text_count [of "[CHR '' '', CHR 0x09, CHR 0x0A]"]
  by (simp add: split_def isspace_def)

text \<open>
  Claim C1, as the specification states it, fails on a text of one word: the formula
  \<open>ceil(max(0, W - 200) / 1800)\<close> gives no chunk, the code gives one.
\<close>

theorem chunk_text_count_counterexample:
  "length (split ''hello'') = 1
   \<and> int (length (chunk_text ''hello'')) \<noteq> (max 0 (int (length (split ''hello'')) - 200) + 1799) div 1800"
  by (simp add: chunk_text_def chunk_words_def chunk_loop.simps chunk_size_def
      chunk_overlap_def split_def isspace_def)

section \<open>Properties of the index\<close>

lemma embed_batches_ok:
  assumes ok: "\<forall>batch. \<exists>m. f batch = Inr m \<and> ncols m = D \<and> length (rows m) = length batch"
  shows "list_all (\<lambda>m. ncols m = D) (embed_batches (Some f) cs i)
         \<and> length (concat (map rows (embed_batches (Some f) cs i))) = length cs - i
         \<and> (embed_batches (Some f) cs i = [] \<longleftrightarrow> length cs \<le> i)"
proof (induction "Some f" cs i rule: embed_batches.induct)
  case (1 cs i)
  show ?case
  proof (cases "length cs \<le> i")
    case True
    then show ?thesis by (simp add: embed_batches.simps [of _ cs i])
  next
    case False
    define batch where "batch = take batch_size (drop i cs)"
    from ok obtain m where m: "f batch = Inr m" "ncols m = D" "length (rows m) = length batch"
      by blast
    have unfold: "embed_batches (Some f) cs i = m # embed_batches (Some f) cs (i + batch_size)"
      using False m(1)
      by (subst embed_batches.simps) (simp add: Let_def encode_def batch_def)
    have ih: "list_all (\<lambda>m. ncols m = D) (embed_batches (Some f) cs (i + batch_size))
         \<and> length (concat (map rows (embed_batches (Some f) cs (i + batch_size))))
             = length cs - (i + batch_size)"
      using "1.hyps" [OF False refl] by simp
    have "length batch = min batch_size (length cs - i)"
      by (simp add: batch_def)
    then have "length batch + (length cs - (i + batch_size)) = length cs - i"
      using False by (simp add: min_def)
    with m ih show ?thesis by (simp add: unfold False)
  qed
qed

lemma vstack_ok:
  "ms \<noteq> [] \<Longrightarrow> list_all (\<lambda>m. ncols m = D) ms \<Longrightarrow>
   vstack ms = Inr (NDArray D (concat (map rows ms)))"
  by (cases ms) (auto simp: list_all_iff)

text \<open>
  Claim C2. Let the document store be as long as the index has rows (for an index not yet
  created: no document). After a call of \<open>add_documents\<close> whose embedder answers every batch
  with one vector of the index's width per chunk, the call returns normally, the store is
  again as long as the index has rows, and the store is the old store followed by the
  chunks of the documents, in the order of the documents and of the chunks in each.
\<close>

theorem add_documents_invariant:
  assumes emb: "embedder st = Some f"
    and ok: "\<forall>batch. \<exists>m. f batch = Inr m \<and> ncols m = D \<and> length (rows m) = length batch"
    and dim: "\<forall>ix. vector_index st = Some ix \<longrightarrow> d ix = D"
    and inv: "length (documents st) = row_count st"
  shows "\<exists>st'. add_documents st docs = (None, st')
           \<and> length (documents st') = row_count st'
           \<and> documents st' = documents st @ concat (map chunk_text docs)"
proof (cases "docs = []")
  case True
  with inv show ?thesis by (simp add: add_documents_def)
next
  case False
  define all_chunks where "all_chunks = concat (map chunk_text docs)"
  define es where "es = embed_batches (Some f) all_chunks 0"
  have es_eq: "embed_batches (embedder st) (concat (map chunk_text docs)) 0 = es"
    by (simp add: emb es_def all_chunks_def)
  note eb = embed_batches_ok [OF ok, of all_chunks 0, folded es_def]
  show ?thesis
  proof (cases "all_chunks = []")
    case True
    then have "es = []" using eb by simp
    then have "add_documents st docs = (None, st\<lparr>documents := documents st @ all_chunks\<rparr>)"
      using False by (simp add: add_documents_def Let_def es_eq all_chunks_def)
    then show ?thesis
      using inv True by (simp add: row_count_def all_chunks_def)
  next
    case ne: False
    then have es_ne: "es \<noteq> []" using eb by simp
    define x where "x = NDArray D (concat (map rows es))"
    have vs: "vstack es = Inr x"
      using vstack_ok [OF es_ne, of D] eb by (simp add: x_def)
    have xr: "length (rows x) = length all_chunks" and xc: "ncols x = D"
      using eb by (simp_all add: x_def)
    define ix where "ix = (case vector_index st of None \<Rightarrow> IndexFlatL2 D [] | Some ix \<Rightarrow> ix)"
    have ixd: "d ix = D"
      using dim by (cases "vector_index st") (simp_all add: ix_def)
    have ixn: "ntotal ix = row_count st"
      by (cases "vector_index st") (simp_all add: ix_def row_count_def ntotal_def)
    define st' where
      "st' = st\<lparr>documents := documents st @ all_chunks,
                vector_index := Some (IndexFlatL2 D (xb ix @ rows x))\<rparr>"
    have "add_documents st docs = (None, st')"
    proof (cases "vector_index st")
      case None
      then show ?thesis
        using False es_ne vs xc
        by (simp add: add_documents_def Let_def es_eq index_add_def st'_def ix_def
            all_chunks_def)
    next
      case (Some ix0)
      then show ?thesis
        using False es_ne vs xc ixd
        by (simp add: add_documents_def Let_def es_eq index_add_def st'_def ix_def
            all_chunks_def)
    qed
    moreover have "length (documents st') = row_count st'"
      using inv xr ixn by (simp add: st'_def row_count_def ntotal_def)
    ultimately show ?thesis
      by (simp add: st'_def all_chunks_def)
  qed
qed

theorem add_documents_invariant_witness:
  "\<exists>st'. add_documents (init_assistant (Some unit_embedder) None) [''to be'', [], ''or not''] = (None, st')
           \<and> length (documents st') = row_count st'
           \<and> documents st' = [''to be'', ''or not'']"
  using add_documents_invariant [of "init_assistant (Some unit_embedder) None" unit_embedder 2
      "[''to be'', [], ''or not'']"]
  by (simp add: init_assistant_def unit_embedder_def row_count_def chunk_text_def chunk_words_def
      chunk_loop.simps chunk_size_def chunk_overlap_def split_def isspace_def)

section \<open>Properties of the query\<close>

text \<open>
  Claim C3. The claim asks that the search is never asked for more neighbours than the index
  has rows, that a store of three chunks gives a context of at most three entries, and that
  every read of the document store is at a row position. The code does otherwise on a store
  of three chunks whose search answers as the flat index does: the search is asked for 30
  neighbours of 3 rows and pads its answer with \<open>-1\<close>, the guard of line 115 for an empty
  answer does not apply, and the context is joined from 30 entries, 27 of them read at index
  \<open>-1\<close>, which is the last chunk again.
\<close>

theorem query_three_chunks_padded:
  "row_count three_chunks = 3
   \<and> length (documents three_chunks) = 3
   \<and> padded_search (IndexFlatL2 2 [[1, 0], [1, 0], [1, 0]]) (NDArray 2 [[1, 0]]) top_k
       = Inr ([0, 1, 2] @ replicate 27 (- 1))
   \<and> py_index (documents three_chunks) (- 1) = Inr ''c''
   \<and> retrieve padded_search three_chunks ''q'' None
       = Inr (Chunks ([''a'', ''b'', ''c''] @ replicate 27 ''c''))
   \<and> length ([''a'', ''b'', ''c''] @ replicate 27 ''c'') = 30"
  by (simp add: retrieve_def truthy_def three_chunks_def encode_def unit_embedder_def
      echo_pipeline_def padded_search_def top_k_def ntotal_def row_count_def py_index_def
      upt_conv_Cons numeral_eq_Suc)

text \<open>
  Claim C4, as the code has it. The six formats have their documented length budgets. Any
  other format resolves to the budget 2048 and to the default instruction of line 130,
  which is not the instruction of \<open>full\<close>; no exception is raised on the way, and the query
  goes on to the generation with that prompt.
\<close>

theorem answer_format_policy:
  "max_len ''one_word'' = 20
   \<and> max_len ''full'' = 2048 \<and> max_len ''long_answer'' = 2048
   \<and> max_len ''short_summary'' = 1024 \<and> max_len ''bullet_points'' = 1024
   \<and> max_len ''short_answer'' = 1024
   \<and> (answer_format \<notin> {''full'', ''short_summary'', ''bullet_points'', ''long_answer'',
                         ''one_word'', ''short_answer''} \<longrightarrow>
        instruction answer_format = ''Answer in full sentences and in detail.''
        \<and> max_len answer_format = 2048
        \<and> (\<forall>chunks. retrieve search st question_text context_texts = Inr (Chunks chunks) \<longrightarrow>
              query search st question_text context_texts answer_format
                = Inr (generate (qa_pipeline st)
                         (''Answer in full sentences and in detail.''
                          @ '' Based on the provided context, answer the following educational question accurately. Context: ''
                          @ join ''\<newline>'' chunks @ '' Question: '' @ question_text)
                         2048)))"
proof -
  have known: "max_len ''one_word'' = 20" "max_len ''full'' = 2048" "max_len ''long_answer'' = 2048"
    "max_len ''short_summary'' = 1024" "max_len ''bullet_points'' = 1024"
    "max_len ''short_answer'' = 1024"
    by (simp_all add: max_len_def max_lengths_def dict_get_def)
  have other: "instruction answer_format = ''Answer in full sentences and in detail.''
      \<and> max_len answer_format = 2048"
    if "answer_format \<notin> {''full'', ''short_summary'', ''bullet_points'', ''long_answer'',
                         ''one_word'', ''short_answer''}"
  proof -
    from that have "map_of format_instructions answer_format = None"
      and "map_of max_lengths answer_format = None"
      by (simp_all add: format_instructions_def max_lengths_def)
    then show ?thesis by (simp add: instruction_def max_len_def dict_get_def)
  qed
  show ?thesis
    using known other by (simp add: query_def prompt_of_def)
qed

theorem answer_format_policy_witness:
  "instruction ''essay'' = ''Answer in full sentences and in detail.''
   \<and> max_len ''essay'' = 2048
   \<and> query (\<lambda>ix q k. Inr []) (init_assistant None (Some echo_pipeline) :: int assistant) ''why?''
        (Some [''some notes'']) ''essay'' = Inr ''ok''"
  using answer_format_policy [of "''essay''" "\<lambda>ix q k. Inr []"
      "init_assistant None (Some echo_pipeline) :: int assistant" "''why?''" "Some [''some notes'']"]
  by (simp add: retrieve_def truthy_def init_assistant_def echo_pipeline_def generate_def
      run_pipeline_def dict_get_def chunk_text_def chunk_words_def chunk_loop.simps
      chunk_size_def chunk_overlap_def split_def isspace_def)

text \<open>
  Claim C4, as the specification states it, fails on the format \<open>essay\<close>: the budget is the
  one of \<open>full\<close>, the instruction is not.
\<close>

theorem answer_format_counterexample:
  "max_len ''essay'' = max_len ''full'' \<and> instruction ''essay'' \<noteq> instruction ''full''"
  by (simp add: instruction_def max_len_def format_instructions_def max_lengths_def dict_get_def)

section \<open>Properties of the generation\<close>

text \<open>
  Claim C6. When the pipeline raises on the prompt, the invoker returns the text
  \<open>Error during generation:\<close> followed by the message of the exception, for every prompt and
  every length budget; a query that has reached the generation with that prompt returns
  this text to its caller, and no exception leaves it.
\<close>

theorem generation_error_returned:
  assumes "\<forall>arg. run p prompt arg = Inl e"
  shows "generate (Some p) prompt n = ''Error during generation: '' @ message e
         \<and> (retrieve search st question_text context_texts = Inr (Chunks chunks)
              \<and> qa_pipeline st = Some p
              \<and> prompt = prompt_of answer_format (join ''\<newline>'' chunks) question_text
              \<and> n = max_len answer_format \<longrightarrow>
            query search st question_text context_texts answer_format
              = Inr (''Error during generation: '' @ message e))"
proof -
  have "generate (Some p) prompt n = ''Error during generation: '' @ message e"
    using assms by (simp add: generate_def run_pipeline_def)
  then show ?thesis by (auto simp: query_def)
qed

theorem generation_error_returned_witness:
  "query (\<lambda>ix q k. Inr []) (init_assistant None (Some failing_pipeline) :: int assistant)
        ''why?'' (Some [''some notes'']) ''full''
       = Inr ''Error during generation: out of memory''"
proof -
  have run: "\<forall>arg. run failing_pipeline prompt arg = Inl (RuntimeError ''out of memory'')"
    for prompt
    by (simp add: failing_pipeline_def)
  have ctx: "retrieve (\<lambda>ix q k. Inr []) (init_assistant None (Some failing_pipeline) :: int assistant)
      ''why?'' (Some [''some notes'']) = Inr (Chunks [''some notes''])"
    by (simp add: retrieve_def truthy_def chunk_text_def chunk_words_def
      chunk_loop.simps chunk_size_def chunk_overlap_def split_def isspace_def)
  have qa: "qa_pipeline (init_assistant None (Some failing_pipeline) :: int assistant)
      = Some failing_pipeline"
    by (simp add: init_assistant_def)
  show ?thesis
    using generation_error_returned [OF run,
        of "prompt_of ''full'' (join ''\<newline>'' [''some notes'']) ''why?''" "max_len ''full''"
        "\<lambda>ix q k. Inr []" "init_assistant None (Some failing_pipeline) :: int assistant"
        "''why?''" "Some [''some notes'']" "[''some notes'']" "''full''"]
      ctx qa
    by simp
qed

lemma find_prefix: "sub \<noteq> [] \<Longrightarrow> find (sub @ rest) sub = Some 0"
  by (cases sub) simp_all

lemma find_None_iff: "find s sub = None \<longleftrightarrow> \<not> sublist sub s"
  by (induction s) (auto simp: sublist_Cons_right)

lemma replace_prefix: "replace (old @ rest) old [] = replace rest old []"
proof (cases "old = []")
  case True
  then show ?thesis by simp
next
  case False
  then show ?thesis
    using find_prefix [OF False, of rest] by (subst replace.simps) simp
qed

lemma replace_concat_split_on:
  "old \<noteq> [] \<Longrightarrow> replace s old [] = concat (split_on s old)"
proof (induction s old rule: split_on.induct)
  case (1 s sep)
  show ?case
  proof (cases "find s sep")
    case None
    with "1.prems" show ?thesis
      by (simp add: replace.simps [of s] split_on.simps [of s])
  next
    case (Some i)
    with "1.prems" "1.IH" [OF "1.prems" Some] show ?thesis
      by (simp add: replace.simps [of s] split_on.simps [of s])
  qed
qed

text \<open>
  Claim C7, as the code has it. In the causal mode the invoker returns the output with every
  occurrence of the prompt removed, as \<open>str.replace\<close> finds them from left to right: for an
  output that starts with the prompt this is the continuation with every occurrence of the
  prompt removed, that is, the pieces of the continuation between the occurrences; when the
  continuation does not contain the prompt again, it is exactly the continuation.
\<close>

theorem causal_prompt_removed:
  assumes "task p \<noteq> ''text2text-generation''"
    and "run p prompt (max_new_tokens n) = Inr (r # rs)"
    and "r ''generated_text'' = Some (prompt @ rest)"
  shows "generate (Some p) prompt n = replace (prompt @ rest) prompt []
         \<and> generate (Some p) prompt n = replace rest prompt []
         \<and> (prompt \<noteq> [] \<longrightarrow> generate (Some p) prompt n = concat (split_on rest prompt))
         \<and> (\<not> sublist prompt rest \<longrightarrow> generate (Some p) prompt n = rest)"
proof -
  have gen: "generate (Some p) prompt n = replace (prompt @ rest) prompt []"
    using assms by (simp add: generate_def run_pipeline_def dict_get_def)
  have strip: "replace (prompt @ rest) prompt [] = replace rest prompt []"
    by (rule replace_prefix)
  have pieces: "replace rest prompt [] = concat (split_on rest prompt)" if "prompt \<noteq> []"
    using that by (rule replace_concat_split_on)
  have clean: "replace rest prompt [] = rest" if "\<not> sublist prompt rest"
  proof -
    from that have "prompt \<noteq> []" by auto
    moreover from that have "find rest prompt = None" by (simp add: find_None_iff)
    ultimately show ?thesis by (subst replace.simps) simp
  qed
  show ?thesis
    using gen strip pieces clean by simp
qed

theorem causal_prompt_removed_witness:
  "generate (Some (repeating_pipeline ''yes Q? no, Q? maybe'')) ''Q?'' 20 = ''yes  no,  maybe''
   \<and> generate (Some (repeating_pipeline ''Paris'')) ''Capital of France?'' 20 = ''Paris''"
  using causal_prompt_removed [of "repeating_pipeline ''yes Q? no, Q? maybe''" "''Q?''" 20
      "[''generated_text'' \<mapsto> ''Q?'' @ ''yes Q? no, Q? maybe'']" "[]" "''yes Q? no, Q? maybe''"]
    causal_prompt_removed [of "repeating_pipeline ''Paris''" "''Capital of France?''" 20
      "[''generated_text'' \<mapsto> ''Capital of France?'' @ ''Paris'']" "[]" "''Paris''"]
    find_None_iff [of "''Paris''" "''Capital of France?''"]
  by (simp add: repeating_pipeline_def replace.simps)

text \<open>
  Claim C7, as the specification states it, fails on an output whose continuation repeats
  the prompt: the second occurrence is removed as well, and the result is not the suffix
  after the prompt.
\<close>

theorem causal_prompt_counterexample:
  "run (repeating_pipeline (''yes '' @ ''Q?'' @ '' no'')) ''Q?'' (max_new_tokens 20)
     = Inr [[''generated_text'' \<mapsto> ''Q?'' @ (''yes '' @ ''Q?'' @ '' no'')]]
   \<and> generate (Some (repeating_pipeline (''yes '' @ ''Q?'' @ '' no''))) ''Q?'' 20 = ''yes  no''
   \<and> ''yes  no'' \<noteq> ''yes '' @ ''Q?'' @ '' no''"
  by (simp add: repeating_pipeline_def generate_def run_pipeline_def dict_get_def replace.simps)

section \<open>Properties of the flashcard parser\<close>

text \<open>
  Claim C5. The parser gives a list of at most five flashcards for every generated text,
  and so does \<open>generate_flashcards\<close> for every state and content; when the pipeline raises,
  \<open>generate_flashcards\<close> gives the empty list, and no exception leaves it.
\<close>

theorem flashcards_at_most_five:
  "length (parse_flashcards generated_text) \<le> 5
   \<and> length (generate_flashcards st content) \<le> 5
   \<and> (qa_pipeline st = Some p \<and> (\<forall>prompt arg. run p prompt arg = Inl e) \<longrightarrow>
        generate_flashcards st content = [])"
proof (intro conjI impI)
  show parse: "length (parse_flashcards generated_text) \<le> 5" for generated_text
    by (simp add: parse_flashcards_def Let_def)
  show "length (generate_flashcards st content) \<le> 5"
    using parse
    by (simp add: generate_flashcards_def Let_def split: option.splits sum.splits)
  assume "qa_pipeline st = Some p \<and> (\<forall>prompt arg. run p prompt arg = Inl e)"
  then have "run_pipeline (qa_pipeline st) prompt n = Inl e" for prompt n
    by (simp add: run_pipeline_def)
  then show "generate_flashcards st content = []"
    by (simp add: generate_flashcards_def Let_def split: option.splits)
qed

theorem flashcards_at_most_five_witness:
  "length (parse_flashcards six_cards) \<le> 5
   \<and> generate_flashcards (init_assistant None (Some failing_pipeline) :: int assistant)
        (Some ''some notes'') = []"
  using flashcards_at_most_five [of six_cards
      "init_assistant None (Some failing_pipeline) :: int assistant" "Some ''some notes''"
      failing_pipeline "RuntimeError ''out of memory''"]
  by (simp add: init_assistant_def failing_pipeline_def)

lemma six_cards_parsed: "length (parse_flashcards six_cards) = 5"
  by code_simp

lemma no_cards_parsed: "parse_flashcards ''There is nothing to learn here.'' = []"
  by code_simp

text \<open>
  Claim C8. Applied to the five examples of the prompt, the parser gives the five
  flashcards of the examples, in order, each with review count 0 and never reviewed.
\<close>

theorem few_shot_block_parsed:
  "parse_flashcards few_shot_block =
    [\<lparr>question = ''What is the capital of France?'', answer = ''Paris'',
      review_count = 0, last_reviewed = None\<rparr>,
     \<lparr>question = ''What is 2+2?'', answer = ''4'', review_count = 0, last_reviewed = None\<rparr>,
     \<lparr>question = ''What is the color of the sky?'', answer = ''Blue'',
      review_count = 0, last_reviewed = None\<rparr>,
     \<lparr>question = ''What is the largest planet?'', answer = ''Jupiter'',
      review_count = 0, last_reviewed = None\<rparr>,
     \<lparr>question = ''What is water made of?'', answer = ''Hydrogen and oxygen'',
      review_count = 0, last_reviewed = None\<rparr>]"
  by code_simp

text \<open>
  Claim C10. \<open>generate_flashcards\<close> gives the empty list when the pipeline is \<open>None\<close>, and
  when it is called without content while the index is absent or the document store is
  empty; \<open>query\<close> without context texts returns a message in that state.
\<close>

theorem flashcards_empty_list:
  "(qa_pipeline st = None \<longrightarrow> generate_flashcards st content = [])
   \<and> (vector_index st = None \<or> documents st = [] \<longrightarrow>
        generate_flashcards st None = []
        \<and> (\<not> truthy context_texts \<longrightarrow>
             query search st question_text context_texts answer_format
               = Inr ''Please upload some study materials first!''))"
  by (auto simp: generate_flashcards_def query_def retrieve_def split: option.splits)

theorem flashcards_empty_list_witness:
  "generate_flashcards (init_assistant None None :: int assistant) (Some ''some notes'') = []
   \<and> generate_flashcards (init_assistant None (Some failing_pipeline) :: int assistant) None = []
   \<and> query (\<lambda>ix q k. Inr []) (init_assistant None (Some failing_pipeline) :: int assistant) ''why?'' None ''full''
       = Inr ''Please upload some study materials first!''"
  using flashcards_empty_list [of "init_assistant None None :: int assistant" "Some ''some notes''" None]
    flashcards_empty_list [of "init_assistant None (Some failing_pipeline) :: int assistant" None None
      "\<lambda>ix q k. Inr []" "''why?''" "''full''"]
  by (simp add: init_assistant_def truthy_def)

end
